theory Spec2Isabelle
  imports Complex_Main "HOL-Library.Multiset"
begin

section \<open>IbexVis: the browser front end (src/web/ibexvis.js)\<close>

text \<open>
  The page script builds Plotly traces and overlay rectangles from the result of an
  embedded Python run and installs two click handlers. JavaScript objects built by the
  script are records with the script's field names; a JavaScript value that may be
  \<^verbatim>\<open>undefined\<close> is an \<open>option\<close> (\<open>None\<close> is \<^verbatim>\<open>undefined\<close>); an exception thrown
  by the script is a value of \<open>js_error\<close>.
\<close>

subsection \<open>JavaScript values used by the script\<close>

datatype js_error =
    PythonError string  \<comment> \<open>the error thrown by \<^verbatim>\<open>pyodide.runPython\<close>, by its text\<close>
  | TypeError string    \<comment> \<open>thrown by the engine on a property read of \<^verbatim>\<open>undefined\<close>\<close>

text \<open>\<^verbatim>\<open>xs[i]\<close> on an array: the element, or \<^verbatim>\<open>undefined\<close> beyond the end.\<close>

definition js_index :: "'a list \<Rightarrow> nat \<Rightarrow> 'a option" where
  "js_index xs i = (if i < length xs then Some (xs ! i) else None)"

text \<open>
  The string that \<^verbatim>\<open>'x' + n\<close> appends for a non-negative integer \<open>n\<close>: its decimal
  digits (array indices are below \<open>2^32\<close>, where a JavaScript number is exact and printed
  without exponent).
\<close>

definition digit_char :: "nat \<Rightarrow> char" where
  "digit_char d = ''0123456789'' ! d"

function number_to_string :: "nat \<Rightarrow> string" where
  "number_to_string n =
     (if n < 10 then [digit_char n]
      else number_to_string (n div 10) @ [digit_char (n mod 10)])"
  by pat_completeness auto
termination
  by (relation "measure id") auto

declare number_to_string.simps [simp del]

subsection \<open>Traces: \<^verbatim>\<open>formdata\<close>\<close>

record 'd trace =
  x :: 'd
  y :: "'d option"
  xaxis :: string
  yaxis :: string
  type :: string
  name :: "string option"

text \<open>
  \<^verbatim>\<open>
  const formdata = (time, propname, datavec) => [...propname].map((_, c) => {
    return {x:time, y:datavec[c], xaxis:'x'+(c+1), yaxis:'y'+(c+1), type:'scatter', name:propname[c]};
  });
  \<close>
  The callback ignores the element and uses the index \<open>c\<close>.
\<close>

definition formdata :: "'d \<Rightarrow> string list \<Rightarrow> 'd list \<Rightarrow> 'd trace list" where
  "formdata time propname datavec =
     map (\<lambda>(c, _).
            \<lparr>x = time, y = js_index datavec c,
             xaxis = ''x'' @ number_to_string (c + 1),
             yaxis = ''y'' @ number_to_string (c + 1),
             type = ''scatter'', name = js_index propname c\<rparr>)
         (enumerate 0 propname)"

subsection \<open>Overlay rectangles: \<^verbatim>\<open>genshapes\<close>\<close>

record line =
  width :: int

record 't shape =
  type :: string
  xref :: string
  yref :: string
  x0 :: 't
  x1 :: 't
  y0 :: int
  y1 :: int
  fillcolor :: string
  opacity :: real
  line :: line

text \<open>
  \<^verbatim>\<open>
  const genshapes = (runs, colour) => runs.map((d) => {
    return { type: 'rect', xref: 'x', yref: 'paper', x0: d[0], x1: d[1], y0: 0, y1: 1,
             fillcolor: colour, opacity: 0.2, line: {width: 0} };
  });
  \<close>
  An interval \<open>d\<close> is a pair; \<open>d[0]\<close> and \<open>d[1]\<close> are its components. Reading
  \<^verbatim>\<open>runs.map\<close> when \<open>runs\<close> is \<^verbatim>\<open>undefined\<close> throws a TypeError.
\<close>

definition undefined_map_error :: js_error where
  "undefined_map_error = TypeError ''Cannot read properties of undefined (reading 'map')''"

definition genshapes :: "('t \<times> 't) list option \<Rightarrow> string \<Rightarrow> js_error + 't shape list" where
  "genshapes runs colour =
     (case runs of
        None \<Rightarrow> Inl undefined_map_error
      | Some rs \<Rightarrow>
          Inr (map (\<lambda>d. \<lparr>type = ''rect'', xref = ''x'', yref = ''paper'',
                          x0 = fst d, x1 = snd d, y0 = 0, y1 = 1,
                          fillcolor = colour, opacity = 0.2, line = \<lparr>width = 0\<rparr>\<rparr>) rs))"

text \<open>
  The earlier revision of the script (src/unnamed/part\_000), with one parameter and the
  fill colour written in the body:
  \<^verbatim>\<open>
  const genshapes = (runs,) => runs.map((d) => {
    return { type: 'rect', xref: 'x', yref: 'paper', x0: d[0], x1: d[1], y0: 0, y1: 1,
             fillcolor: '#00d300', opacity: 0.2, line: {width: 0} };
  });
  \<close>
  A second argument passed by a caller is dropped, so the model takes it and ignores it.
\<close>

definition genshapes_part_000 :: "('t \<times> 't) list option \<Rightarrow> string \<Rightarrow> js_error + 't shape list" where
  "genshapes_part_000 runs ignored =
     (case runs of
        None \<Rightarrow> Inl undefined_map_error
      | Some rs \<Rightarrow>
          Inr (map (\<lambda>d. \<lparr>type = ''rect'', xref = ''x'', yref = ''paper'',
                          x0 = fst d, x1 = snd d, y0 = 0, y1 = 1,
                          fillcolor = ''#00d300'', opacity = 0.2, line = \<lparr>width = 0\<rparr>\<rparr>) rs))"

subsection \<open>The embedded Python run\<close>

text \<open>
  The Python objects the script reads: a run has a dictionary \<open>properties\<close> from names
  to trackers with a \<open>data\<close> attribute, and two lists of intervals, \<open>counts\<close> and
  \<open>records\<close>. The dictionary is an association list read with \<open>map_of\<close>.
\<close>

record 'd tracker =
  data :: 'd

record ('d, 't) run =
  properties :: "(string \<times> 'd tracker) list"
  counts :: "('t \<times> 't) list"
  records :: "('t \<times> 't) list"

type_synonym ('d, 't) run_tuple =
  "'d \<times> string list \<times> 'd list \<times> ('t \<times> 't) list \<times> ('t \<times> 't) list"

text \<open>The text of \<^verbatim>\<open>"" + err\<close> for a thrown error: its name, a colon and its message.\<close>

fun error_string :: "js_error \<Rightarrow> string" where
  "error_string (PythonError msg) = ''PythonError: '' @ msg"
| "error_string (TypeError msg) = ''TypeError: '' @ msg"

text \<open>\<^verbatim>\<open>run.properties.keys() - {"time"}\<close>: the keys other than \<open>time\<close>, each once.\<close>

definition keys_minus_time :: "(string \<times> 'v) list \<Rightarrow> string list" where
  "keys_minus_time ps = remdups (filter (\<lambda>k. k \<noteq> ''time'') (map fst ps))"

text \<open>\<^verbatim>\<open>run.properties[name]\<close>: a missing key raises KeyError.\<close>

definition getitem :: "(string \<times> 'v) list \<Rightarrow> string \<Rightarrow> js_error + 'v" where
  "getitem ps k =
     (case map_of ps k of
        None \<Rightarrow> Inl (PythonError (''KeyError: '' @ k))
      | Some v \<Rightarrow> Inr v)"

text \<open>\<^verbatim>\<open>[run.properties[name].data for name in props]\<close>, stopping at the first error.\<close>

fun data_for :: "(string \<times> 'd tracker) list \<Rightarrow> string list \<Rightarrow> js_error + 'd list" where
  "data_for ps [] = Inr []"
| "data_for ps (n # ns) =
     (case getitem ps n of
        Inl e \<Rightarrow> Inl e
      | Inr t \<Rightarrow> (case data_for ps ns of Inl e \<Rightarrow> Inl e | Inr ds \<Rightarrow> Inr (data t # ds)))"

text \<open>
  The program handed to \<^verbatim>\<open>pyodide.runPython\<close>, and \<^verbatim>\<open>.toJs()\<close> on its value:
  \<^verbatim>\<open>
  run = runner("script.py", properties_from_input(Path("config.json")), dummies={...})
  props = run.properties.keys() - {"time"}
  time = run.properties["time"].data
  (time, props, [run.properties[name].data for name in props], run.counts, run.records)
  \<close>
  The simulation \<open>runner\<close> belongs to the Python package and is a parameter: from the
  files of the virtual file system it gives a run or raises an error with some text.
  \<open>props\<close> is a Python set, whose iteration order the language leaves open; the
  parameter \<open>iter\<close> is that order. The set is iterated in the same order by the list
  comprehension and by \<^verbatim>\<open>Array.from\<close> on the converted value.
\<close>

definition run_program ::
  "((string \<rightharpoonup> string) \<Rightarrow> string + ('d, 't) run) \<Rightarrow> (string list \<Rightarrow> string list) \<Rightarrow>
   (string \<rightharpoonup> string) \<Rightarrow> js_error + ('d, 't) run_tuple" where
  "run_program runner iter files =
     (case runner files of
        Inl msg \<Rightarrow> Inl (PythonError msg)
      | Inr run \<Rightarrow>
          (let props = iter (keys_minus_time (properties run)) in
           case getitem (properties run) ''time'' of
             Inl e \<Rightarrow> Inl e
           | Inr tm \<Rightarrow>
               (let time = data tm in
                case data_for (properties run) props of
                  Inl e \<Rightarrow> Inl e
                | Inr datavec \<Rightarrow> Inr (time, props, datavec, counts run, records run))))"

subsection \<open>The page and its effects\<close>

record grid =
  rows :: nat
  columns :: nat
  pattern :: string

record 't layout =
  grid :: grid
  shapes :: "'t shape list"

text \<open>
  What the plot container holds: the plot drawn when the page loads, a text, markup
  assigned to \<^verbatim>\<open>innerHTML\<close>, or a plot drawn by \<^verbatim>\<open>Plotly.newPlot\<close> from traces and
  a layout.
\<close>

datatype ('d, 't) plot_content =
    InitialPlot
  | TextContent string
  | InnerHTML string
  | Plot "'d trace list" "'t layout"

record selected_file =
  file_name :: string
  file_text :: string

datatype event =
    WriteFile string string
  | SetTextContent string
  | RunPython
  | SetInnerHTML string
  | NewPlot
  | ConsoleLog string
  | ReadAsText string

text \<open>
  The state the handlers read and write: the two text areas, the files chosen in the
  upload input, the plot container, the files of the Python file system, and the effects
  performed so far, in order.
\<close>

record ('d, 't) page =
  scriptpy :: string
  configjson :: string
  upload :: "selected_file list"
  plotdiv :: "('d, 't) plot_content"
  FS :: "string \<rightharpoonup> string"
  events :: "event list"

definition writeFile :: "string \<Rightarrow> string \<Rightarrow> ('d, 't) page \<Rightarrow> ('d, 't) page" where
  "writeFile path text st =
     st\<lparr>FS := (FS st)(path \<mapsto> text), events := events st @ [WriteFile path text]\<rparr>"

definition set_textContent :: "string \<Rightarrow> ('d, 't) page \<Rightarrow> ('d, 't) page" where
  "set_textContent s st = st\<lparr>plotdiv := TextContent s, events := events st @ [SetTextContent s]\<rparr>"

definition set_innerHTML :: "string \<Rightarrow> ('d, 't) page \<Rightarrow> ('d, 't) page" where
  "set_innerHTML s st = st\<lparr>plotdiv := InnerHTML s, events := events st @ [SetInnerHTML s]\<rparr>"

definition newPlot :: "'d trace list \<Rightarrow> 't layout \<Rightarrow> ('d, 't) page \<Rightarrow> ('d, 't) page" where
  "newPlot dat lay st = st\<lparr>plotdiv := Plot dat lay, events := events st @ [NewPlot]\<rparr>"

definition runPython ::
  "((string \<rightharpoonup> string) \<Rightarrow> string + ('d, 't) run) \<Rightarrow> (string list \<Rightarrow> string list) \<Rightarrow>
   ('d, 't) page \<Rightarrow> (js_error + ('d, 't) run_tuple) \<times> ('d, 't) page" where
  "runPython runner iter st =
     (run_program runner iter (FS st), st\<lparr>events := events st @ [RunPython]\<rparr>)"

subsection \<open>The click handler \<^verbatim>\<open>calcVis\<close>\<close>

text \<open>
  The variable \<open>rundata\<close> holds \<^verbatim>\<open>false\<close> or the converted tuple. \<^verbatim>\<open>false[3]\<close> is
  \<^verbatim>\<open>undefined\<close>; an array is truthy.
\<close>

datatype ('d, 't) rundata =
    JsFalse
  | JsArray "('d, 't) run_tuple"

fun rundata_3 :: "('d, 't) rundata \<Rightarrow> ('t \<times> 't) list option" where
  "rundata_3 JsFalse = None"
| "rundata_3 (JsArray (time, props, datavec, cnts, recs)) = Some cnts"

fun rundata_4 :: "('d, 't) rundata \<Rightarrow> ('t \<times> 't) list option" where
  "rundata_4 JsFalse = None"
| "rundata_4 (JsArray (time, props, datavec, cnts, recs)) = Some recs"

text \<open>
  \<^verbatim>\<open>
  function calcVis() {
    const scriptpy = document.getElementById("scriptpy").value;
    pyodide.FS.writeFile("script.py", scriptpy);
    const configjson = document.getElementById("configjson").value;
    pyodide.FS.writeFile("config.json", configjson);
    let rundata = false;
    plotdiv.textContent = "";
    try {
      rundata = pyodide.runPython(`...`).toJs();
    } catch(err) {
      plotdiv.innerHTML = "<pre>" + err + "</pre>";
    }
    var records = genshapes(rundata[3], '#00d300').concat(genshapes(rundata[4], '#d30000'));
    if (rundata) {
      const layout = { grid: {rows: rundata[2].length, columns:1, pattern:'independent'}, shapes: records };
      const data = formdata(rundata[0], Array.from(rundata[1]), rundata[2]);
      Plotly.newPlot(plotdiv, data, layout);
    }
  }
  \<close>
  The result is the page after the handler and the exception that left the handler
  uncaught, if one did.
\<close>

definition calcVis ::
  "((string \<rightharpoonup> string) \<Rightarrow> string + ('d, 't) run) \<Rightarrow> (string list \<Rightarrow> string list) \<Rightarrow>
   ('d, 't) page \<Rightarrow> ('d, 't) page \<times> js_error option" where
  "calcVis runner iter st0 =
     (let st1 = writeFile ''script.py'' (scriptpy st0) st0;
          st2 = writeFile ''config.json'' (configjson st1) st1;
          st3 = set_textContent '''' st2;
          (rundata, st4) =
            (case runPython runner iter st3 of
               (Inr tuple, s) \<Rightarrow> (JsArray tuple, s)
             | (Inl err, s) \<Rightarrow> (JsFalse, set_innerHTML (''<pre>'' @ error_string err @ ''</pre>'') s))
      in case genshapes (rundata_3 rundata) ''#00d300'' of
           Inl e \<Rightarrow> (st4, Some e)
         | Inr green \<Rightarrow>
             (case genshapes (rundata_4 rundata) ''#d30000'' of
                Inl e \<Rightarrow> (st4, Some e)
              | Inr red \<Rightarrow>
                  (let records = green @ red in
                   case rundata of
                     JsFalse \<Rightarrow> (st4, None)
                   | JsArray (time, props, datavec, cnts, recs) \<Rightarrow>
                       (let layout = \<lparr>grid = \<lparr>rows = length datavec, columns = 1,
                                                pattern = ''independent''\<rparr>,
                                        shapes = records\<rparr>;
                            dat = formdata time props datavec
                        in (newPlot dat layout st4, None)))))"

text \<open>
  The handler in two parts, as it reaches and leaves the call of \<^verbatim>\<open>runPython\<close>.
  \<open>calcVis_until_run\<close> is the handler up to \<^verbatim>\<open>plotdiv.textContent = ""\<close>: its result
  is the page on which the Python program is started. \<open>calcVis_from_run\<close> is the rest,
  from the \<^verbatim>\<open>try\<close> to the end, on that page.
\<close>

definition calcVis_until_run :: "('d, 't) page \<Rightarrow> ('d, 't) page" where
  "calcVis_until_run st0 =
     (let st1 = writeFile ''script.py'' (scriptpy st0) st0;
          st2 = writeFile ''config.json'' (configjson st1) st1;
          st3 = set_textContent '''' st2
      in st3)"

definition calcVis_from_run ::
  "((string \<rightharpoonup> string) \<Rightarrow> string + ('d, 't) run) \<Rightarrow> (string list \<Rightarrow> string list) \<Rightarrow>
   ('d, 't) page \<Rightarrow> ('d, 't) page \<times> js_error option" where
  "calcVis_from_run runner iter st3 =
     (let (rundata, st4) =
            (case runPython runner iter st3 of
               (Inr tuple, s) \<Rightarrow> (JsArray tuple, s)
             | (Inl err, s) \<Rightarrow> (JsFalse, set_innerHTML (''<pre>'' @ error_string err @ ''</pre>'') s))
      in case genshapes (rundata_3 rundata) ''#00d300'' of
           Inl e \<Rightarrow> (st4, Some e)
         | Inr green \<Rightarrow>
             (case genshapes (rundata_4 rundata) ''#d30000'' of
                Inl e \<Rightarrow> (st4, Some e)
              | Inr red \<Rightarrow>
                  (let records = green @ red in
                   case rundata of
                     JsFalse \<Rightarrow> (st4, None)
                   | JsArray (time, props, datavec, cnts, recs) \<Rightarrow>
                       (let layout = \<lparr>grid = \<lparr>rows = length datavec, columns = 1,
                                                pattern = ''independent''\<rparr>,
                                        shapes = records\<rparr>;
                            dat = formdata time props datavec
                        in (newPlot dat layout st4, None)))))"

text \<open>
  The page as the Python program finds it, after the first six lines of the handler:
  both files written, the plot container emptied, the run started.
\<close>

definition page_at_run :: "('d, 't) page \<Rightarrow> ('d, 't) page" where
  "page_at_run st =
     st\<lparr>plotdiv := TextContent '''',
        FS := (FS st)(''script.py'' \<mapsto> scriptpy st, ''config.json'' \<mapsto> configjson st),
        events := events st @ [WriteFile ''script.py'' (scriptpy st),
                               WriteFile ''config.json'' (configjson st),
                               SetTextContent '''', RunPython]\<rparr>"

text \<open>
  The earlier revision of the handler (src/unnamed/part\_000). Its Python program ends in
  \<^verbatim>\<open>(time, props, [run.properties[name].data for name in props], run.counts)\<close>, without
  the records, and the overlays are built inside the test of \<open>rundata\<close>:
  \<^verbatim>\<open>
    try { rundata = pyodide.runPython(`...`).toJs(); }
    catch(err) { plotdiv.innerHTML = "<pre>" + err + "</pre>"; }
    if (rundata) {
      const layout = { grid: {rows: rundata[2].length, columns:1, pattern:'independent'},
                       shapes: genshapes(rundata[3]) };
      const data = formdata(rundata[0], Array.from(rundata[1]), rundata[2]);
      Plotly.newPlot(plotdiv, data, layout);
    }
  \<close>
\<close>

type_synonym ('d, 't) run_tuple_part_000 =
  "'d \<times> string list \<times> 'd list \<times> ('t \<times> 't) list"

definition run_program_part_000 ::
  "((string \<rightharpoonup> string) \<Rightarrow> string + ('d, 't) run) \<Rightarrow> (string list \<Rightarrow> string list) \<Rightarrow>
   (string \<rightharpoonup> string) \<Rightarrow> js_error + ('d, 't) run_tuple_part_000" where
  "run_program_part_000 runner iter files =
     (case runner files of
        Inl msg \<Rightarrow> Inl (PythonError msg)
      | Inr run \<Rightarrow>
          (let props = iter (keys_minus_time (properties run)) in
           case getitem (properties run) ''time'' of
             Inl e \<Rightarrow> Inl e
           | Inr tm \<Rightarrow>
               (let time = data tm in
                case data_for (properties run) props of
                  Inl e \<Rightarrow> Inl e
                | Inr datavec \<Rightarrow> Inr (time, props, datavec, counts run))))"

definition runPython_part_000 ::
  "((string \<rightharpoonup> string) \<Rightarrow> string + ('d, 't) run) \<Rightarrow> (string list \<Rightarrow> string list) \<Rightarrow>
   ('d, 't) page \<Rightarrow> (js_error + ('d, 't) run_tuple_part_000) \<times> ('d, 't) page" where
  "runPython_part_000 runner iter st =
     (run_program_part_000 runner iter (FS st), st\<lparr>events := events st @ [RunPython]\<rparr>)"

datatype ('d, 't) rundata_part_000 =
    JsFalse_part_000
  | JsArray_part_000 "('d, 't) run_tuple_part_000"

definition calcVis_part_000 ::
  "((string \<rightharpoonup> string) \<Rightarrow> string + ('d, 't) run) \<Rightarrow> (string list \<Rightarrow> string list) \<Rightarrow>
   ('d, 't) page \<Rightarrow> ('d, 't) page \<times> js_error option" where
  "calcVis_part_000 runner iter st0 =
     (let st1 = writeFile ''script.py'' (scriptpy st0) st0;
          st2 = writeFile ''config.json'' (configjson st1) st1;
          st3 = set_textContent '''' st2;
          (rundata, st4) =
            (case runPython_part_000 runner iter st3 of
               (Inr tuple, s) \<Rightarrow> (JsArray_part_000 tuple, s)
             | (Inl err, s) \<Rightarrow>
                 (JsFalse_part_000,
                  set_innerHTML (''<pre>'' @ error_string err @ ''</pre>'') s))
      in case rundata of
           JsFalse_part_000 \<Rightarrow> (st4, None)
         | JsArray_part_000 (time, props, datavec, cnts) \<Rightarrow>
             (case genshapes_part_000 (Some cnts) [] of
                Inl e \<Rightarrow> (st4, Some e)
              | Inr green \<Rightarrow>
                  (let layout = \<lparr>grid = \<lparr>rows = length datavec, columns = 1,
                                           pattern = ''independent''\<rparr>,
                                   shapes = green\<rparr>;
                       dat = formdata time props datavec
                   in (newPlot dat layout st4, None))))"

subsection \<open>The upload button\<close>

text \<open>
  \<^verbatim>\<open>
  function () {
    const filedata = document.getElementById("upload").files;
    if (filedata.length !== 1) return;
    console.log("File selected: ", filedata[0].name);
    const reader = new FileReader();
    reader.readAsText(filedata[0]);
    reader.addEventListener("load", () => {
      document.getElementById("scriptpy").value = reader.result;
    });
  };
  \<close>
  The read is asynchronous: the handler returns with a read started and a listener
  installed. \<open>upload_click\<close> gives the page after the handler and the file being read,
  if a read was started; \<open>reader_load\<close> is the listener, run with \<^verbatim>\<open>reader.result\<close>
  when the read has finished.
\<close>

definition upload_click :: "('d, 't) page \<Rightarrow> ('d, 't) page \<times> selected_file option" where
  "upload_click st =
     (let filedata = upload st in
      if length filedata \<noteq> 1 then (st, None)
      else
        (let st1 = st\<lparr>events := events st @ [ConsoleLog (''File selected: '' @ file_name (filedata ! 0))]\<rparr>;
             st2 = st1\<lparr>events := events st1 @ [ReadAsText (file_name (filedata ! 0))]\<rparr>
         in (st2, Some (filedata ! 0))))"

definition reader_load :: "string \<Rightarrow> ('d, 't) page \<Rightarrow> ('d, 't) page" where
  "reader_load result st = st\<lparr>scriptpy := result\<rparr>"

definition upload_then_load :: "('d, 't) page \<Rightarrow> ('d, 't) page" where
  "upload_then_load st =
     (case upload_click st of
        (st', None) \<Rightarrow> st'
      | (st', Some f) \<Rightarrow> reader_load (file_text f) st')"

section \<open>The simulation engine: PropertyModel\<close>

text \<open>
  Modelled from the spec: the PropertyModel of the Python package \<open>ibex_vis\<close>, whose
  code is not among the sources (the page only calls its \<open>runner\<close>). The record and
  \<open>advance\<close> follow sections 3 and 4.1 of the specification: values are real numbers,
  \<open>target\<close> may be unset, and \<open>rate\<close> is the last active rate of the dynamic state.
\<close>

datatype engine_error =
    ConfigurationError
  | UnknownProperty
  | InvalidArgument
  | TimeoutExceeded

record property_model =
  prop_name :: string
  prop_value :: real
  target :: "real option"
  rate :: real
  rate_up :: real
  rate_down :: real
  units :: string
  always_advance :: bool

text \<open>
  Modelled from the spec: \<open>set_target\<close> records the target and leaves the value.
\<close>

definition set_target :: "real \<Rightarrow> property_model \<Rightarrow> property_model" where
  "set_target v p = p\<lparr>target := Some v\<rparr>"

text \<open>
  Modelled from the spec: \<open>advance dt\<close>. A negative \<open>dt\<close> is an InvalidArgument. With a
  target different from the value, the value moves by \<open>rate_up * dt\<close> when the target is
  above and by \<open>rate_down * dt\<close> when it is below, and stops at the target. At the
  target, and with no target, the value holds unless \<open>always_advance\<close>: then it goes on
  at the last active rate, or at \<open>rate_up\<close> when no target is set.
\<close>

definition advance :: "real \<Rightarrow> property_model \<Rightarrow> engine_error + property_model" where
  "advance dt p =
     (if dt < 0 then Inl InvalidArgument
      else
        (case target p of
           None \<Rightarrow>
             Inr (if always_advance p
                  then p\<lparr>prop_value := prop_value p + rate_up p * dt\<rparr>
                  else p)
         | Some tg \<Rightarrow>
             (if prop_value p = tg then
                Inr (if always_advance p
                     then p\<lparr>prop_value := prop_value p + rate p * dt\<rparr>
                     else p)
              else if prop_value p < tg then
                Inr (p\<lparr>prop_value := min tg (prop_value p + rate_up p * dt),
                       rate := rate_up p\<rparr>)
              else
                Inr (p\<lparr>prop_value := max tg (prop_value p + rate_down p * dt),
                       rate := rate_down p\<rparr>))))"

text \<open>Several advances in a row, stopping at the first error.\<close>

fun advance_all :: "real list \<Rightarrow> property_model \<Rightarrow> engine_error + property_model" where
  "advance_all [] p = Inr p"
| "advance_all (dt # dts) p =
     (case advance dt p of Inl e \<Rightarrow> Inl e | Inr p' \<Rightarrow> advance_all dts p')"

text \<open>
  The rate that moves the value towards the target \<open>tg\<close>: \<open>rate_up\<close> from below,
  \<open>rate_down\<close> from above.
\<close>

definition rate_towards :: "real \<Rightarrow> property_model \<Rightarrow> real" where
  "rate_towards tg p = (if prop_value p < tg then rate_up p else rate_down p)"

section \<open>Example inputs\<close>

text \<open>
  A run with the time axis and two properties, one interval of each kind; a page before
  the first click; a runner that returns that run and one that raises; pages with one
  and with two files selected; and a property at 0 with rate 2 whose target is set to 10.
\<close>

definition example_run :: "(real list, real) run" where
  "example_run =
     \<lparr>properties = [(''time'', \<lparr>data = [0, 5]\<rparr>), (''T'', \<lparr>data = [10, 20]\<rparr>),
                    (''B'', \<lparr>data = [3, 4]\<rparr>)],
      counts = [(0, 2)], records = [(2, 5)]\<rparr>"

definition example_page :: "(real list, real) page" where
  "example_page =
     \<lparr>scriptpy = ''g.cset(T=20)'', configjson = ''{}'', upload = [],
      plotdiv = InitialPlot, FS = Map.empty, events = []\<rparr>"

definition example_runner :: "(string \<rightharpoonup> string) \<Rightarrow> string + (real list, real) run" where
  "example_runner files = Inr example_run"

definition failing_runner :: "(string \<rightharpoonup> string) \<Rightarrow> string + (real list, real) run" where
  "failing_runner files = Inl ''NameError: name 'g' is not defined''"

definition one_file_page :: "(real list, real) page" where
  "one_file_page =
     example_page\<lparr>upload := [\<lparr>file_name = ''scan.py'', file_text = ''g.cset(T=5)''\<rparr>]\<rparr>"

definition two_file_page :: "(real list, real) page" where
  "two_file_page =
     example_page\<lparr>upload := [\<lparr>file_name = ''a.py'', file_text = ''a''\<rparr>,
                              \<lparr>file_name = ''b.py'', file_text = ''b''\<rparr>]\<rparr>"

definition example_property :: property_model where
  "example_property =
     set_target 10
       \<lparr>prop_name = ''T'', prop_value = 0, target = None, rate = 0, rate_up = 2,
        rate_down = -2, units = ''K'', always_advance = False\<rparr>"

section \<open>Properties of the trace and overlay builders\<close>

lemma number_to_string_digit: "n < 10 \<Longrightarrow> number_to_string n = [digit_char n]"
  by (simp add: number_to_string.simps)

lemma length_formdata: "length (formdata time propname datavec) = length propname"
  by (simp add: formdata_def)

lemma nth_formdata:
  assumes "i < length propname"
  shows "formdata time propname datavec ! i =
           \<lparr>x = time, y = js_index datavec i,
            xaxis = ''x'' @ number_to_string (i + 1),
            yaxis = ''y'' @ number_to_string (i + 1),
            type = ''scatter'', name = Some (propname ! i)\<rparr>"
  using assms by (simp add: formdata_def nth_enumerate_eq js_index_def)

text \<open>
  C2. \<open>formdata time propname datavec\<close> has one trace per property name, and the
  \<open>i\<close>-th trace (from 0) has \<open>x\<close> the shared time array, \<open>y\<close> the value of
  \<open>datavec[i]\<close>, type \<open>scatter\<close>, name \<open>propname[i]\<close> and the axis identifiers
  \<open>x\<close> and \<open>y\<close> followed by the decimal digits of \<open>i + 1\<close>.
\<close>

theorem formdata_one_trace_per_property:
  "length (formdata time propname datavec) = length propname \<and>
   (\<forall>i < length propname.
      x (formdata time propname datavec ! i) = time \<and>
      y (formdata time propname datavec ! i) = js_index datavec i \<and>
      (i < length datavec \<longrightarrow> y (formdata time propname datavec ! i) = Some (datavec ! i)) \<and>
      trace.type (formdata time propname datavec ! i) = ''scatter'' \<and>
      name (formdata time propname datavec ! i) = Some (propname ! i) \<and>
      xaxis (formdata time propname datavec ! i) = ''x'' @ number_to_string (i + 1) \<and>
      yaxis (formdata time propname datavec ! i) = ''y'' @ number_to_string (i + 1))"
  by (simp add: length_formdata nth_formdata js_index_def)

theorem formdata_one_trace_per_property_witness:
  "length (formdata [0, 5 :: real] [''T'', ''B''] [[10, 20], [3, 4]]) = 2 \<and>
   x (formdata [0, 5 :: real] [''T'', ''B''] [[10, 20], [3, 4]] ! 1) = [0, 5] \<and>
   y (formdata [0, 5 :: real] [''T'', ''B''] [[10, 20], [3, 4]] ! 1) = Some [3, 4] \<and>
   trace.type (formdata [0, 5 :: real] [''T'', ''B''] [[10, 20], [3, 4]] ! 1) = ''scatter'' \<and>
   name (formdata [0, 5 :: real] [''T'', ''B''] [[10, 20], [3, 4]] ! 1) = Some ''B'' \<and>
   xaxis (formdata [0, 5 :: real] [''T'', ''B''] [[10, 20], [3, 4]] ! 1) = ''x2'' \<and>
   yaxis (formdata [0, 5 :: real] [''T'', ''B''] [[10, 20], [3, 4]] ! 1) = ''y2''"
proof -
  have two: "number_to_string (Suc (Suc 0)) = ''2''"
    by (simp add: number_to_string_digit digit_char_def)
  note all = formdata_one_trace_per_property
               [of "[0, 5 :: real]" "[''T'', ''B'']" "[[10, 20], [3, 4]]"]
  have at_1: "(1::nat) < length [''T'', ''B'']"
    by simp
  from conjunct1 [OF all] conjunct2 [OF all, rule_format, OF at_1]
  show ?thesis
    by (simp add: two js_index_def)
qed

text \<open>
  C8. On every argument the one-parameter \<open>genshapes\<close> of the earlier revision returns
  what the two-parameter \<open>genshapes\<close> returns for the colour \<open>#00d300\<close>, whatever second
  argument the earlier one is handed.
\<close>

theorem genshapes_part_000_eq_genshapes:
  "genshapes_part_000 runs ignored = genshapes runs ''#00d300''"
  by (simp add: genshapes_part_000_def genshapes_def)

section \<open>Properties of the click handler\<close>

subsection \<open>The Python program and the two outcomes of a click\<close>

lemma data_for_Inr:
  "data_for ps ns = Inr ds \<Longrightarrow>
     length ds = length ns \<and>
     (\<forall>i < length ns. \<exists>t. map_of ps (ns ! i) = Some t \<and> ds ! i = data t)"
proof (induction ns arbitrary: ds)
  case Nil
  then show ?case by simp
next
  case (Cons n ns)
  from Cons.prems obtain t ds' where
    t: "map_of ps n = Some t" and ds': "data_for ps ns = Inr ds'" and ds: "ds = data t # ds'"
    by (auto simp: getitem_def split: option.splits sum.splits)
  from Cons.IH [OF ds'] have
    len: "length ds' = length ns" and
    nth: "\<forall>i < length ns. \<exists>t. map_of ps (ns ! i) = Some t \<and> ds' ! i = data t"
    by simp_all
  show ?case
  proof (intro conjI allI impI)
    show "length ds = length (n # ns)"
      using len ds by simp
  next
    fix i assume "i < length (n # ns)"
    then show "\<exists>t. map_of ps ((n # ns) ! i) = Some t \<and> ds ! i = data t"
      using t nth ds by (cases i) simp_all
  qed
qed

lemma run_program_Inr:
  assumes "run_program runner iter files = Inr (time, props, datavec, cnts, recs)"
  shows "\<exists>run tm. runner files = Inr run \<and> map_of (properties run) ''time'' = Some tm \<and>
           time = data tm \<and> props = iter (keys_minus_time (properties run)) \<and>
           data_for (properties run) props = Inr datavec \<and>
           cnts = counts run \<and> recs = records run"
  using assms
  by (auto simp: run_program_def getitem_def Let_def split: sum.splits option.splits)

lemma calcVis_failed:
  assumes "run_program runner iter (FS (page_at_run st)) = Inl err"
  shows "calcVis runner iter st =
           ((page_at_run st)
              \<lparr>plotdiv := InnerHTML (''<pre>'' @ error_string err @ ''</pre>''),
               events := events (page_at_run st) @
                         [SetInnerHTML (''<pre>'' @ error_string err @ ''</pre>'')]\<rparr>,
            Some undefined_map_error)"
  using assms
  by (simp add: calcVis_def page_at_run_def runPython_def writeFile_def set_textContent_def
        set_innerHTML_def genshapes_def)

lemma calcVis_succeeded:
  assumes "run_program runner iter (FS (page_at_run st)) = Inr (time, props, datavec, cnts, recs)"
  shows "\<exists>green red.
           genshapes (Some cnts) ''#00d300'' = Inr green \<and>
           genshapes (Some recs) ''#d30000'' = Inr red \<and>
           calcVis runner iter st =
           ((page_at_run st)
              \<lparr>plotdiv := Plot (formdata time props datavec)
                             \<lparr>grid = \<lparr>rows = length datavec, columns = 1,
                                      pattern = ''independent''\<rparr>,
                              shapes = green @ red\<rparr>,
               events := events (page_at_run st) @ [NewPlot]\<rparr>,
            None)"
  using assms
  by (simp add: calcVis_def page_at_run_def runPython_def writeFile_def set_textContent_def
        newPlot_def genshapes_def)

subsection \<open>A successful run\<close>

lemma map_name_formdata: "map trace.name (formdata time propname datavec) = map Some propname"
  by (rule nth_equalityI) (simp_all add: length_formdata nth_formdata)

lemma set_keys_minus_time: "set (keys_minus_time ps) = fst ` set ps - {''time''}"
  by (auto simp: keys_minus_time_def)

lemma distinct_keys_minus_time: "distinct (keys_minus_time ps)"
  by (simp add: keys_minus_time_def)

lemma iter_set:
  assumes "\<forall>ks. mset (iter ks) = mset ks"
  shows "set (iter ks) = set ks"
  using assms by (metis set_mset_mset)

lemma iter_distinct:
  assumes "\<forall>ks. mset (iter ks) = mset ks" and "distinct ks"
  shows "distinct (iter ks)"
  using assms by (metis mset_eq_imp_distinct_iff)

lemma iter_length:
  assumes "\<forall>ks. mset (iter ks) = mset ks"
  shows "length (iter ks) = length ks"
  using assms by (metis size_mset)

text \<open>
  C3. On a successful run, for any order in which Python iterates the set of names,
  \<open>calcVis\<close> draws a plot whose trace names are exactly the keys of \<open>run.properties\<close>
  other than \<open>time\<close>, each once; no trace is named \<open>time\<close>; and every trace has as
  \<open>x\<close> the data of \<open>run.properties["time"]\<close>.
\<close>

theorem calcVis_plots_properties_minus_time:
  assumes perm: "\<forall>ks. mset (iter ks) = mset ks"
    and run: "runner (FS (page_at_run st)) = Inr run"
    and ok: "run_program runner iter (FS (page_at_run st)) = Inr tuple"
  shows "\<exists>dat lay tm.
           calcVis runner iter st =
             ((page_at_run st)\<lparr>plotdiv := Plot dat lay,
                                events := events (page_at_run st) @ [NewPlot]\<rparr>, None) \<and>
           set (map trace.name dat) = Some ` (fst ` set (properties run) - {''time''}) \<and>
           distinct (map trace.name dat) \<and>
           Some ''time'' \<notin> set (map trace.name dat) \<and>
           map_of (properties run) ''time'' = Some tm \<and>
           (\<forall>t \<in> set dat. x t = data tm)"
proof -
  obtain time props datavec cnts recs where tuple: "tuple = (time, props, datavec, cnts, recs)"
    by (cases tuple)
  from run_program_Inr [OF ok [unfolded tuple]] run obtain tm where
    tm: "map_of (properties run) ''time'' = Some tm" and time: "time = data tm" and
    props: "props = iter (keys_minus_time (properties run))"
    by auto
  from calcVis_succeeded [OF ok [unfolded tuple]] obtain lay where
    cv: "calcVis runner iter st =
           ((page_at_run st)\<lparr>plotdiv := Plot (formdata time props datavec) lay,
                              events := events (page_at_run st) @ [NewPlot]\<rparr>, None)"
    by blast
  have names: "map trace.name (formdata time props datavec) = map Some props"
    by (rule map_name_formdata)
  have set_props: "set props = fst ` set (properties run) - {''time''}"
    using props iter_set [OF perm] set_keys_minus_time by metis
  have dist_props: "distinct props"
    using props iter_distinct [OF perm distinct_keys_minus_time] by metis
  have x_all: "\<forall>t \<in> set (formdata time props datavec). x t = data tm"
    by (auto simp: formdata_def time)
  have no_time: "Some ''time'' \<notin> set (map Some props)"
    using set_props by auto
  show ?thesis
    apply (rule exI [of _ "formdata time props datavec"])
    apply (rule exI [of _ lay])
    apply (rule exI [of _ tm])
    using cv names set_props dist_props x_all no_time tm
    by (simp add: distinct_map)
qed

lemma example_run_program:
  "run_program example_runner rev files =
     Inr ([0, 5], [''B'', ''T''], [[3, 4], [10, 20]], [(0, 2)], [(2, 5)])"
  by (simp add: run_program_def example_runner_def example_run_def keys_minus_time_def
        getitem_def)

theorem calcVis_plots_properties_minus_time_witness:
  "(\<forall>ks :: string list. mset (rev ks) = mset ks) \<and>
   example_runner (FS (page_at_run example_page)) = Inr example_run \<and>
   (\<exists>dat lay. plotdiv (fst (calcVis example_runner rev example_page)) = Plot dat lay \<and>
      set (map trace.name dat) = {Some ''T'', Some ''B''} \<and>
      (\<forall>t \<in> set dat. x t = [0, 5]))"
proof -
  have perm: "\<forall>ks :: string list. mset (rev ks) = mset ks"
    by simp
  have run: "example_runner (FS (page_at_run example_page)) = Inr example_run"
    by (simp add: example_runner_def)
  from calcVis_plots_properties_minus_time [OF perm run example_run_program]
  obtain dat lay tm where
    cv: "calcVis example_runner rev example_page =
           ((page_at_run example_page)\<lparr>plotdiv := Plot dat lay,
              events := events (page_at_run example_page) @ [NewPlot]\<rparr>, None)" and
    names: "set (map trace.name dat) = Some ` (fst ` set (properties example_run) - {''time''})" and
    tm: "map_of (properties example_run) ''time'' = Some tm" and
    xs: "\<forall>t \<in> set dat. x t = data tm"
    by blast
  from tm have "data tm = [0, 5]"
    by (auto simp: example_run_def)
  moreover have "Some ` (fst ` set (properties example_run) - {''time''}) = {Some ''T'', Some ''B''}"
    by (auto simp: example_run_def)
  ultimately show ?thesis
    using perm run cv names xs by simp
qed

lemma genshapes_Some:
  "genshapes (Some runs) colour =
     Inr (map (\<lambda>d. \<lparr>type = ''rect'', xref = ''x'', yref = ''paper'',
                     x0 = fst d, x1 = snd d, y0 = 0, y1 = 1,
                     fillcolor = colour, opacity = 0.2, line = \<lparr>width = 0\<rparr>\<rparr>) runs)"
  by (simp add: genshapes_def)

text \<open>
  C4. For a list of interval pairs \<open>genshapes\<close> returns one rectangle per pair, in
  order, from the pair's start to its end over the whole height of the plot (\<open>yref\<close>
  \<open>paper\<close>, from 0 to 1), filled with the given colour at opacity 0.2. On a successful
  run the layout's shapes are the rectangles of the counts in \<open>#00d300\<close> followed by
  those of the records in \<open>#d30000\<close>, and the two colours differ.
\<close>

theorem genshapes_rectangles_and_overlay_colours:
  "(\<exists>shs. genshapes (Some runs) colour = Inr shs \<and> length shs = length runs \<and>
      (\<forall>i < length runs.
         shape.type (shs ! i) = ''rect'' \<and>
         x0 (shs ! i) = fst (runs ! i) \<and> x1 (shs ! i) = snd (runs ! i) \<and>
         yref (shs ! i) = ''paper'' \<and> y0 (shs ! i) = 0 \<and> y1 (shs ! i) = 1 \<and>
         fillcolor (shs ! i) = colour \<and> opacity (shs ! i) = 0.2)) \<and>
   (runner (FS (page_at_run st)) = Inr run \<and>
    run_program runner iter (FS (page_at_run st)) = Inr tuple \<longrightarrow>
      (\<exists>dat lay green red.
         plotdiv (fst (calcVis runner iter st)) = Plot dat lay \<and>
         genshapes (Some (counts run)) ''#00d300'' = Inr green \<and>
         genshapes (Some (records run)) ''#d30000'' = Inr red \<and>
         shapes lay = green @ red \<and>
         length green = length (counts run) \<and> length red = length (records run) \<and>
         (\<forall>s \<in> set green. fillcolor s = ''#00d300'') \<and>
         (\<forall>s \<in> set red. fillcolor s = ''#d30000''))) \<and>
   ''#00d300'' \<noteq> ''#d30000''"
proof (intro conjI impI)
  show "\<exists>shs. genshapes (Some runs) colour = Inr shs \<and> length shs = length runs \<and>
      (\<forall>i < length runs.
         shape.type (shs ! i) = ''rect'' \<and>
         x0 (shs ! i) = fst (runs ! i) \<and> x1 (shs ! i) = snd (runs ! i) \<and>
         yref (shs ! i) = ''paper'' \<and> y0 (shs ! i) = 0 \<and> y1 (shs ! i) = 1 \<and>
         fillcolor (shs ! i) = colour \<and> opacity (shs ! i) = 0.2)"
    by (simp add: genshapes_Some)
next
  assume a: "runner (FS (page_at_run st)) = Inr run \<and>
    run_program runner iter (FS (page_at_run st)) = Inr tuple"
  obtain time props datavec cnts recs where tuple: "tuple = (time, props, datavec, cnts, recs)"
    by (cases tuple)
  from a have ok: "run_program runner iter (FS (page_at_run st)) = Inr (time, props, datavec, cnts, recs)"
    by (simp add: tuple)
  from run_program_Inr [OF ok] a have cr: "cnts = counts run" "recs = records run"
    by auto
  from calcVis_succeeded [OF ok] obtain green red where
    g: "genshapes (Some cnts) ''#00d300'' = Inr green" and
    r: "genshapes (Some recs) ''#d30000'' = Inr red" and
    cv: "plotdiv (fst (calcVis runner iter st)) =
           Plot (formdata time props datavec)
             \<lparr>grid = \<lparr>rows = length datavec, columns = 1, pattern = ''independent''\<rparr>,
              shapes = green @ red\<rparr>"
    by auto
  from g have green: "length green = length cnts" "\<forall>s \<in> set green. fillcolor s = ''#00d300''"
    by (auto simp: genshapes_Some)
  from r have red: "length red = length recs" "\<forall>s \<in> set red. fillcolor s = ''#d30000''"
    by (auto simp: genshapes_Some)
  show "\<exists>dat lay green red.
         plotdiv (fst (calcVis runner iter st)) = Plot dat lay \<and>
         genshapes (Some (counts run)) ''#00d300'' = Inr green \<and>
         genshapes (Some (records run)) ''#d30000'' = Inr red \<and>
         shapes lay = green @ red \<and>
         length green = length (counts run) \<and> length red = length (records run) \<and>
         (\<forall>s \<in> set green. fillcolor s = ''#00d300'') \<and>
         (\<forall>s \<in> set red. fillcolor s = ''#d30000'')"
    using g r cv green red cr by auto
next
  show "''#00d300'' \<noteq> ''#d30000''"
    by simp
qed

theorem genshapes_rectangles_and_overlay_colours_witness:
  "example_runner (FS (page_at_run example_page)) = Inr example_run \<and>
   (\<exists>shs. genshapes (Some [(0, 2 :: real)]) ''#abcdef'' = Inr shs \<and> length shs = 1 \<and>
      x0 (shs ! 0) = 0 \<and> x1 (shs ! 0) = 2 \<and> fillcolor (shs ! 0) = ''#abcdef'') \<and>
   (\<exists>dat lay. plotdiv (fst (calcVis example_runner rev example_page)) = Plot dat lay \<and>
      map fillcolor (shapes lay) = [''#00d300'', ''#d30000''] \<and>
      map x0 (shapes lay) = [0, 2] \<and> map x1 (shapes lay) = [2, 5])"
proof -
  have run: "example_runner (FS (page_at_run example_page)) = Inr example_run"
    by (simp add: example_runner_def)
  note inst = genshapes_rectangles_and_overlay_colours
               [of "[(0, 2 :: real)]" "''#abcdef''" example_runner example_page example_run rev
                   "([0, 5], [''B'', ''T''], [[3, 4], [10, 20]], [(0, 2)], [(2, 5)])"]
  from conjunct1 [OF inst]
  have first: "\<exists>shs. genshapes (Some [(0, 2 :: real)]) ''#abcdef'' = Inr shs \<and> length shs = 1 \<and>
      x0 (shs ! 0) = 0 \<and> x1 (shs ! 0) = 2 \<and> fillcolor (shs ! 0) = ''#abcdef''"
    by (auto simp: genshapes_Some)
  from conjunct1 [OF conjunct2 [OF inst], rule_format, OF conjI [OF run example_run_program]]
  have second: "\<exists>dat lay. plotdiv (fst (calcVis example_runner rev example_page)) = Plot dat lay \<and>
      map fillcolor (shapes lay) = [''#00d300'', ''#d30000''] \<and>
      map x0 (shapes lay) = [0, 2] \<and> map x1 (shapes lay) = [2, 5]"
    by (auto simp: genshapes_Some example_run_def)
  from run first second show ?thesis
    by (intro conjI)
qed

text \<open>
  C5. On a successful run with \<open>n\<close> keys other than \<open>time\<close>, the layout's grid has
  \<open>n\<close> rows, one column and the pattern \<open>independent\<close>; there are \<open>n\<close> traces, and
  the \<open>i\<close>-th carries the name and the data of the \<open>i\<close>-th property and the axes
  \<open>x\<close> and \<open>y\<close> numbered \<open>i + 1\<close>.
\<close>

theorem calcVis_grid_one_row_per_property:
  assumes perm: "\<forall>ks. mset (iter ks) = mset ks"
    and run: "runner (FS (page_at_run st)) = Inr run"
    and ok: "run_program runner iter (FS (page_at_run st)) = Inr tuple"
  shows "\<exists>dat lay props.
           plotdiv (fst (calcVis runner iter st)) = Plot dat lay \<and>
           grid lay = \<lparr>rows = card (fst ` set (properties run) - {''time''}), columns = 1,
                       pattern = ''independent''\<rparr> \<and>
           length dat = card (fst ` set (properties run) - {''time''}) \<and>
           props = iter (keys_minus_time (properties run)) \<and>
           (\<forall>i < length dat.
              trace.name (dat ! i) = Some (props ! i) \<and>
              xaxis (dat ! i) = ''x'' @ number_to_string (i + 1) \<and>
              yaxis (dat ! i) = ''y'' @ number_to_string (i + 1) \<and>
              (\<exists>t. map_of (properties run) (props ! i) = Some t \<and> y (dat ! i) = Some (data t)))"
proof -
  obtain time props datavec cnts recs where tuple: "tuple = (time, props, datavec, cnts, recs)"
    by (cases tuple)
  from run_program_Inr [OF ok [unfolded tuple]] run have
    props: "props = iter (keys_minus_time (properties run))" and
    df: "data_for (properties run) props = Inr datavec"
    by auto
  from data_for_Inr [OF df] have
    len_dv: "length datavec = length props" and
    dv: "\<forall>i < length props. \<exists>t. map_of (properties run) (props ! i) = Some t \<and> datavec ! i = data t"
    by simp_all
  have "length props = length (keys_minus_time (properties run))"
    using props iter_length [OF perm] by metis
  also have "\<dots> = card (set (keys_minus_time (properties run)))"
    by (simp add: distinct_card distinct_keys_minus_time)
  finally have len_props: "length props = card (fst ` set (properties run) - {''time''})"
    by (simp add: set_keys_minus_time)
  from calcVis_succeeded [OF ok [unfolded tuple]] obtain sh where
    cv: "plotdiv (fst (calcVis runner iter st)) =
           Plot (formdata time props datavec)
             \<lparr>grid = \<lparr>rows = length datavec, columns = 1, pattern = ''independent''\<rparr>,
              shapes = sh\<rparr>"
    by auto
  have each: "\<forall>i < length (formdata time props datavec).
              trace.name (formdata time props datavec ! i) = Some (props ! i) \<and>
              xaxis (formdata time props datavec ! i) = ''x'' @ number_to_string (i + 1) \<and>
              yaxis (formdata time props datavec ! i) = ''y'' @ number_to_string (i + 1) \<and>
              (\<exists>t. map_of (properties run) (props ! i) = Some t \<and>
                   y (formdata time props datavec ! i) = Some (data t))"
    using dv len_dv by (simp add: length_formdata nth_formdata js_index_def)
  show ?thesis
    apply (rule exI [of _ "formdata time props datavec"])
    apply (rule exI [of _ "\<lparr>grid = \<lparr>rows = length datavec, columns = 1, pattern = ''independent''\<rparr>,
              shapes = sh\<rparr>"])
    apply (rule exI [of _ props])
    using cv each props len_dv len_props
    by (simp add: length_formdata)
qed

theorem calcVis_grid_one_row_per_property_witness:
  "(\<forall>ks :: string list. mset (rev ks) = mset ks) \<and>
   example_runner (FS (page_at_run example_page)) = Inr example_run \<and>
   (\<exists>dat lay. plotdiv (fst (calcVis example_runner rev example_page)) = Plot dat lay \<and>
      grid lay = \<lparr>rows = 2, columns = 1, pattern = ''independent''\<rparr> \<and> length dat = 2 \<and>
      trace.name (dat ! 0) = Some ''B'' \<and> xaxis (dat ! 0) = ''x1'' \<and> yaxis (dat ! 0) = ''y1'' \<and>
      y (dat ! 0) = Some [3, 4])"
proof -
  have perm: "\<forall>ks :: string list. mset (rev ks) = mset ks"
    by simp
  have run: "example_runner (FS (page_at_run example_page)) = Inr example_run"
    by (simp add: example_runner_def)
  have card: "card (fst ` set (properties example_run) - {''time''}) = 2"
    by (simp add: example_run_def)
  have props: "rev (keys_minus_time (properties example_run)) = [''B'', ''T'']"
    by (simp add: example_run_def keys_minus_time_def)
  have one: "number_to_string (Suc 0) = ''1''"
    by (simp add: number_to_string_digit digit_char_def)
  from calcVis_grid_one_row_per_property [OF perm run example_run_program]
  obtain dat lay where
    p: "plotdiv (fst (calcVis example_runner rev example_page)) = Plot dat lay" and
    g: "grid lay = \<lparr>rows = 2, columns = 1, pattern = ''independent''\<rparr>" and
    l: "length dat = 2" and
    each: "\<forall>i < length dat.
              trace.name (dat ! i) = Some ([''B'', ''T''] ! i) \<and>
              xaxis (dat ! i) = ''x'' @ number_to_string (i + 1) \<and>
              yaxis (dat ! i) = ''y'' @ number_to_string (i + 1) \<and>
              (\<exists>t. map_of (properties example_run) ([''B'', ''T''] ! i) = Some t \<and>
                   y (dat ! i) = Some (data t))"
    unfolding card props by blast
  have "(0::nat) < length dat"
    using l by simp
  from each [rule_format, OF this] have "trace.name (dat ! 0) = Some ''B'' \<and> xaxis (dat ! 0) = ''x1'' \<and>
      yaxis (dat ! 0) = ''y1'' \<and> y (dat ! 0) = Some [3, 4]"
    by (auto simp: one example_run_def)
  with p g l perm run show ?thesis
    by blast
qed

subsection \<open>Every click\<close>

lemma calcVis_page_at_run:
  "\<exists>st' exn. calcVis runner iter st = (st', exn) \<and>
     FS st' = FS (page_at_run st) \<and> scriptpy st' = scriptpy st \<and> configjson st' = configjson st \<and>
     ((\<exists>err. run_program runner iter (FS (page_at_run st)) = Inl err \<and>
         plotdiv st' = InnerHTML (''<pre>'' @ error_string err @ ''</pre>'') \<and>
         events st' = events (page_at_run st) @
                      [SetInnerHTML (''<pre>'' @ error_string err @ ''</pre>'')]) \<or>
      (\<exists>dat lay. plotdiv st' = Plot dat lay \<and>
         events st' = events (page_at_run st) @ [NewPlot]))"
proof (cases "run_program runner iter (FS (page_at_run st))")
  case (Inl err)
  from Inl calcVis_failed [OF Inl] show ?thesis
    by (simp add: page_at_run_def)
next
  case (Inr tuple)
  obtain time props datavec cnts recs where tuple: "tuple = (time, props, datavec, cnts, recs)"
    by (cases tuple)
  from calcVis_succeeded [OF Inr [unfolded tuple]] show ?thesis
    by (auto simp: page_at_run_def)
qed

lemma calcVis_split:
  "calcVis runner iter st = calcVis_from_run runner iter (calcVis_until_run st)"
  by (simp add: calcVis_def calcVis_from_run_def calcVis_until_run_def Let_def)

lemma calcVis_until_run_page:
  "calcVis_until_run st =
     st\<lparr>plotdiv := TextContent '''',
        FS := (FS st)(''script.py'' \<mapsto> scriptpy st, ''config.json'' \<mapsto> configjson st),
        events := events st @ [WriteFile ''script.py'' (scriptpy st),
                               WriteFile ''config.json'' (configjson st),
                               SetTextContent '''']\<rparr>"
  by (simp add: calcVis_until_run_def writeFile_def set_textContent_def)

lemma calcVis_events_after_run:
  "\<exists>rest.
     events (fst (calcVis runner iter st)) =
       events st @ [WriteFile ''script.py'' (scriptpy st),
                    WriteFile ''config.json'' (configjson st),
                    SetTextContent '''', RunPython] @ rest \<and>
     SetTextContent '''' \<notin> set rest \<and> RunPython \<notin> set rest \<and>
     ((\<exists>html. plotdiv (fst (calcVis runner iter st)) = InnerHTML html \<and> rest = [SetInnerHTML html]) \<or>
      (\<exists>dat lay. plotdiv (fst (calcVis runner iter st)) = Plot dat lay \<and> rest = [NewPlot]))"
proof -
  from calcVis_page_at_run [of runner iter st] obtain st' exn where
    cv: "calcVis runner iter st = (st', exn)" and
    alt: "(\<exists>err. plotdiv st' = InnerHTML (''<pre>'' @ error_string err @ ''</pre>'') \<and>
            events st' = events (page_at_run st) @
                         [SetInnerHTML (''<pre>'' @ error_string err @ ''</pre>'')]) \<or>
          (\<exists>dat lay. plotdiv st' = Plot dat lay \<and>
            events st' = events (page_at_run st) @ [NewPlot])"
    by blast
  from alt show ?thesis
  proof
    assume "\<exists>err. plotdiv st' = InnerHTML (''<pre>'' @ error_string err @ ''</pre>'') \<and>
            events st' = events (page_at_run st) @
                         [SetInnerHTML (''<pre>'' @ error_string err @ ''</pre>'')]"
    then obtain err where
      "plotdiv st' = InnerHTML (''<pre>'' @ error_string err @ ''</pre>'')"
      "events st' = events (page_at_run st) @
                         [SetInnerHTML (''<pre>'' @ error_string err @ ''</pre>'')]"
      by blast
    with cv show ?thesis
      by (intro exI [of _ "[SetInnerHTML (''<pre>'' @ error_string err @ ''</pre>'')]"])
         (simp add: page_at_run_def)
  next
    assume "\<exists>dat lay. plotdiv st' = Plot dat lay \<and>
            events st' = events (page_at_run st) @ [NewPlot]"
    then obtain dat lay where
      "plotdiv st' = Plot dat lay" "events st' = events (page_at_run st) @ [NewPlot]"
      by blast
    with cv show ?thesis
      by (intro exI [of _ "[NewPlot]"]) (simp add: page_at_run_def)
  qed
qed

text \<open>
  C10. On every click the page on which the Python program is started has an empty text
  as the content of the plot container, whatever it held before, and the program leaves
  it so: the handler is \<open>calcVis_from_run\<close> on the page \<open>calcVis_until_run\<close> gives, whose
  container holds the text \<open>''\<close> after the two file writes, and \<open>runPython\<close> is called
  on that page. The effects of the click are, in order, the two writes, the clearing,
  the run, and then one assignment of markup or one new plot; what the container held
  before the click has no influence on the result.
\<close>

theorem calcVis_clears_plot_before_run:
  "calcVis runner iter st = calcVis_from_run runner iter (calcVis_until_run st) \<and>
   plotdiv (calcVis_until_run st) = TextContent '''' \<and>
   events (calcVis_until_run st) =
     events st @ [WriteFile ''script.py'' (scriptpy st),
                  WriteFile ''config.json'' (configjson st), SetTextContent ''''] \<and>
   fst (runPython runner iter (calcVis_until_run st)) =
     run_program runner iter (FS (calcVis_until_run st)) \<and>
   plotdiv (snd (runPython runner iter (calcVis_until_run st))) = TextContent '''' \<and>
   events (snd (runPython runner iter (calcVis_until_run st))) =
     events (calcVis_until_run st) @ [RunPython] \<and>
   (\<exists>rest.
     events (fst (calcVis runner iter st)) =
       events st @ [WriteFile ''script.py'' (scriptpy st),
                    WriteFile ''config.json'' (configjson st),
                    SetTextContent '''', RunPython] @ rest \<and>
     SetTextContent '''' \<notin> set rest \<and> RunPython \<notin> set rest \<and>
     ((\<exists>html. plotdiv (fst (calcVis runner iter st)) = InnerHTML html \<and> rest = [SetInnerHTML html]) \<or>
      (\<exists>dat lay. plotdiv (fst (calcVis runner iter st)) = Plot dat lay \<and> rest = [NewPlot])) \<and>
     calcVis runner iter (st\<lparr>plotdiv := previous\<rparr>) = calcVis runner iter st)"
proof -
  have same: "calcVis runner iter (st\<lparr>plotdiv := previous\<rparr>) = calcVis runner iter st"
    by (simp add: calcVis_def writeFile_def set_textContent_def runPython_def)
  have before: "plotdiv (calcVis_until_run st) = TextContent ''''"
    "events (calcVis_until_run st) =
       events st @ [WriteFile ''script.py'' (scriptpy st),
                    WriteFile ''config.json'' (configjson st), SetTextContent '''']"
    by (simp_all add: calcVis_until_run_page)
  have during: "fst (runPython runner iter (calcVis_until_run st)) =
       run_program runner iter (FS (calcVis_until_run st))"
    "plotdiv (snd (runPython runner iter (calcVis_until_run st))) = TextContent ''''"
    "events (snd (runPython runner iter (calcVis_until_run st))) =
       events (calcVis_until_run st) @ [RunPython]"
    by (simp_all add: runPython_def before)
  from calcVis_events_after_run [of runner iter st] same
  have after: "\<exists>rest.
     events (fst (calcVis runner iter st)) =
       events st @ [WriteFile ''script.py'' (scriptpy st),
                    WriteFile ''config.json'' (configjson st),
                    SetTextContent '''', RunPython] @ rest \<and>
     SetTextContent '''' \<notin> set rest \<and> RunPython \<notin> set rest \<and>
     ((\<exists>html. plotdiv (fst (calcVis runner iter st)) = InnerHTML html \<and> rest = [SetInnerHTML html]) \<or>
      (\<exists>dat lay. plotdiv (fst (calcVis runner iter st)) = Plot dat lay \<and> rest = [NewPlot])) \<and>
     calcVis runner iter (st\<lparr>plotdiv := previous\<rparr>) = calcVis runner iter st"
    by simp
  from calcVis_split [of runner iter st] before during after show ?thesis
    by (intro conjI)
qed

section \<open>Properties of the upload button\<close>

text \<open>
  C9. A click on the upload button with a number of selected files other than one
  returns at once: no read is started and the page, the script text area included, is
  as before. With exactly one file the handler starts a read of that file and leaves the
  text area as it is; when the read has finished the text area holds the file's text,
  and nothing else of the page changes with it.
\<close>

theorem upload_click_replaces_script_for_one_file_only:
  "(length (upload st) \<noteq> 1 \<longrightarrow> upload_click st = (st, None) \<and> upload_then_load st = st) \<and>
   (length (upload st) = 1 \<longrightarrow>
      (\<exists>st'. upload_click st = (st', Some (upload st ! 0)) \<and>
         scriptpy st' = scriptpy st \<and>
         upload_then_load st = st'\<lparr>scriptpy := file_text (upload st ! 0)\<rparr>)) \<and>
   scriptpy (reader_load result st) = result \<and>
   reader_load result st = st\<lparr>scriptpy := result\<rparr>"
  by (simp add: upload_click_def upload_then_load_def reader_load_def Let_def)

theorem upload_click_replaces_script_for_one_file_only_witness:
  "length (upload example_page) \<noteq> 1 \<and> scriptpy (upload_then_load example_page) = ''g.cset(T=20)'' \<and>
   length (upload two_file_page) \<noteq> 1 \<and> scriptpy (upload_then_load two_file_page) = ''g.cset(T=20)'' \<and>
   length (upload one_file_page) = 1 \<and> scriptpy (upload_then_load one_file_page) = ''g.cset(T=5)'' \<and>
   scriptpy (fst (upload_click one_file_page)) = ''g.cset(T=20)''"
proof -
  have none: "length (upload example_page) \<noteq> 1"
    by (simp add: example_page_def)
  have two: "length (upload two_file_page) \<noteq> 1"
    by (simp add: two_file_page_def)
  have one: "length (upload one_file_page) = 1"
    by (simp add: one_file_page_def)
  note a = upload_click_replaces_script_for_one_file_only [of example_page, THEN conjunct1, rule_format, OF none]
  note b = upload_click_replaces_script_for_one_file_only [of two_file_page, THEN conjunct1, rule_format, OF two]
  note c = upload_click_replaces_script_for_one_file_only
             [of one_file_page, THEN conjunct2, THEN conjunct1, rule_format, OF one]
  have sa: "scriptpy (upload_then_load example_page) = ''g.cset(T=20)''"
    using a by (simp add: example_page_def)
  have sb: "scriptpy (upload_then_load two_file_page) = ''g.cset(T=20)''"
    using b by (simp add: two_file_page_def example_page_def)
  from c have sc: "scriptpy (upload_then_load one_file_page) = ''g.cset(T=5)'' \<and>
      scriptpy (fst (upload_click one_file_page)) = ''g.cset(T=20)''"
    by (auto simp: one_file_page_def example_page_def)
  from none two one sa sb sc show ?thesis
    by (intro conjI) simp_all
qed

section \<open>A click whose run fails\<close>

text \<open>
  C1, at a run that fails. The markup with the error text is assigned to the plot
  container and no plot is built, but the handler does not complete: reading
  \<open>rundata[3]\<close> of \<^verbatim>\<open>false\<close> gives \<^verbatim>\<open>undefined\<close>, and \<open>genshapes\<close> throws a TypeError
  that nothing catches.
\<close>

theorem calcVis_failed_run_throws_TypeError:
  "snd (calcVis failing_runner id example_page) =
     Some (TypeError ''Cannot read properties of undefined (reading 'map')'') \<and>
   plotdiv (fst (calcVis failing_runner id example_page)) =
     InnerHTML ''<pre>PythonError: NameError: name 'g' is not defined</pre>'' \<and>
   NewPlot \<notin> set (events (fst (calcVis failing_runner id example_page)))"
proof -
  have "run_program failing_runner id (FS (page_at_run example_page)) =
          Inl (PythonError ''NameError: name 'g' is not defined'')"
    by (simp add: run_program_def failing_runner_def)
  from calcVis_failed [OF this] show ?thesis
    by (simp add: undefined_map_error_def page_at_run_def example_page_def)
qed

text \<open>
  The earlier revision builds the overlays inside the test of \<open>rundata\<close>, and its
  handler completes after a failed run.
\<close>

lemma calcVis_part_000_failed:
  assumes "run_program_part_000 runner iter (FS (page_at_run st)) = Inl err"
  shows "calcVis_part_000 runner iter st =
           ((page_at_run st)
              \<lparr>plotdiv := InnerHTML (''<pre>'' @ error_string err @ ''</pre>''),
               events := events (page_at_run st) @
                         [SetInnerHTML (''<pre>'' @ error_string err @ ''</pre>'')]\<rparr>,
            None)"
  using assms
  by (simp add: calcVis_part_000_def runPython_part_000_def page_at_run_def writeFile_def
        set_textContent_def set_innerHTML_def)

lemma calcVis_part_000_never_throws: "snd (calcVis_part_000 runner iter st) = None"
  by (simp add: calcVis_part_000_def runPython_part_000_def genshapes_part_000_def Let_def
      split: sum.splits rundata_part_000.splits prod.splits)

section \<open>Properties of the PropertyModel\<close>

lemma advance_at_target_holds:
  assumes "target p = Some tg" and "\<not> always_advance p" and "prop_value p = tg" and "0 \<le> d"
  shows "advance d p = Inr p"
  using assms by (simp add: advance_def)

lemma advance_all_at_target_holds:
  assumes "target p = Some tg" and "\<not> always_advance p" and "prop_value p = tg"
    and "\<forall>d \<in> set dts. 0 \<le> d"
  shows "advance_all dts p = Inr p"
  using assms(4)
proof (induction dts)
  case Nil
  show ?case by simp
next
  case (Cons d dts)
  then have "advance d p = Inr p"
    using assms(1-3) by (simp add: advance_at_target_holds)
  with Cons show ?case by simp
qed

lemma advance_from_below:
  assumes tgt: "target p = Some tg" and below: "prop_value p < tg"
    and up: "0 < rate_up p" and dt: "(tg - prop_value p) / rate_up p \<le> dt"
  shows "advance dt p = Inr (p\<lparr>prop_value := tg, rate := rate_up p\<rparr>)"
proof -
  from below up have "0 < (tg - prop_value p) / rate_up p"
    by simp
  with dt have pos: "0 \<le> dt"
    by linarith
  from dt up have "tg - prop_value p \<le> dt * rate_up p"
    by (simp add: pos_divide_le_eq)
  then have "min tg (prop_value p + rate_up p * dt) = tg"
    by (simp add: mult.commute)
  with tgt below pos show ?thesis
    by (simp add: advance_def)
qed

lemma advance_from_above:
  assumes tgt: "target p = Some tg" and above: "tg < prop_value p"
    and down: "rate_down p < 0" and dt: "(tg - prop_value p) / rate_down p \<le> dt"
  shows "advance dt p = Inr (p\<lparr>prop_value := tg, rate := rate_down p\<rparr>)"
proof -
  from above down have "0 < (tg - prop_value p) / rate_down p"
    by (simp add: divide_neg_neg)
  with dt have pos: "0 \<le> dt"
    by linarith
  from dt down have "dt * rate_down p \<le> tg - prop_value p"
    by (simp add: neg_divide_le_eq)
  then have "max tg (prop_value p + rate_down p * dt) = tg"
    by (simp add: mult.commute)
  with tgt above pos show ?thesis
    by (simp add: advance_def)
qed

text \<open>
  C7. Take a PropertyModel with a target, \<open>always_advance\<close> false and rates of the
  signs its invariant demands, and a duration \<open>dt\<close> at least
  \<open>(target - value) / rate\<close>, where \<open>rate\<close> is the rate towards the target and, away
  from the target, is not zero (so that the quotient is defined). Then \<open>advance dt\<close>
  succeeds and leaves the value equal to the target, and any further advances by
  non-negative durations succeed and leave the value at the target.
\<close>

theorem advance_reaches_target_and_holds:
  assumes tgt: "target p = Some tg" and hold: "\<not> always_advance p"
    and inv: "rate_down p \<le> 0" "0 \<le> rate_up p"
    and nz: "prop_value p \<noteq> tg \<longrightarrow> rate_towards tg p \<noteq> 0"
    and dt: "(tg - prop_value p) / rate_towards tg p \<le> dt"
  shows "\<exists>p'. advance dt p = Inr p' \<and> prop_value p' = tg \<and>
           (\<forall>dts. (\<forall>d \<in> set dts. 0 \<le> d) \<longrightarrow>
              (\<exists>p''. advance_all dts p' = Inr p'' \<and> prop_value p'' = tg))"
proof -
  have reach: "\<exists>p'. advance dt p = Inr p' \<and> prop_value p' = tg \<and>
                 target p' = Some tg \<and> \<not> always_advance p'"
  proof -
    consider (at) "prop_value p = tg" | (below) "prop_value p < tg" | (above) "tg < prop_value p"
      by linarith
    then show ?thesis
    proof cases
      case at
      with dt have "0 \<le> dt"
        by simp
      with at tgt hold show ?thesis
        by (simp add: advance_at_target_holds)
    next
      case below
      with nz inv have up: "0 < rate_up p"
        by (simp add: rate_towards_def)
      from dt below have "(tg - prop_value p) / rate_up p \<le> dt"
        by (simp add: rate_towards_def)
      from advance_from_below [OF tgt below up this] tgt hold show ?thesis
        by simp
    next
      case above
      with nz inv have down: "rate_down p < 0"
        by (simp add: rate_towards_def)
      from dt above have "(tg - prop_value p) / rate_down p \<le> dt"
        by (simp add: rate_towards_def)
      from advance_from_above [OF tgt above down this] tgt hold show ?thesis
        by simp
    qed
  qed
  then obtain p' where p': "advance dt p = Inr p'" "prop_value p' = tg"
    "target p' = Some tg" "\<not> always_advance p'"
    by blast
  have "\<forall>dts. (\<forall>d \<in> set dts. 0 \<le> d) \<longrightarrow>
          (\<exists>p''. advance_all dts p' = Inr p'' \<and> prop_value p'' = tg)"
    using advance_all_at_target_holds [OF p'(3) p'(4) p'(2)] p'(2) by simp
  with p' show ?thesis
    by blast
qed

theorem advance_reaches_target_and_holds_witness:
  "target example_property = Some 10 \<and> \<not> always_advance example_property \<and>
   rate_down example_property \<le> 0 \<and> 0 \<le> rate_up example_property \<and>
   rate_towards 10 example_property \<noteq> 0 \<and>
   (10 - prop_value example_property) / rate_towards 10 example_property \<le> 7 \<and>
   (\<exists>p'. advance 7 example_property = Inr p' \<and> prop_value p' = 10 \<and>
      (\<exists>p''. advance_all [0, 3, 1/2] p' = Inr p'' \<and> prop_value p'' = 10))"
proof -
  have tgt: "target example_property = Some 10"
    and hold: "\<not> always_advance example_property"
    and inv: "rate_down example_property \<le> 0" "0 \<le> rate_up example_property"
    and nz: "rate_towards 10 example_property \<noteq> 0"
    and dt: "(10 - prop_value example_property) / rate_towards 10 example_property \<le> 7"
    by (simp_all add: example_property_def set_target_def rate_towards_def)
  have nz': "prop_value example_property \<noteq> 10 \<longrightarrow> rate_towards 10 example_property \<noteq> 0"
    using nz by simp
  from advance_reaches_target_and_holds [OF tgt hold inv nz' dt] obtain p' where
    p': "advance 7 example_property = Inr p'" "prop_value p' = 10" and
    further: "\<forall>dts. (\<forall>d \<in> set dts. 0 \<le> d) \<longrightarrow>
                (\<exists>p''. advance_all dts p' = Inr p'' \<and> prop_value p'' = 10)"
    by blast
  have "\<forall>d \<in> set [0, 3, 1/2 :: real]. 0 \<le> d"
    by simp
  with further have "\<exists>p''. advance_all [0, 3, 1/2] p' = Inr p'' \<and> prop_value p'' = 10"
    by blast
  with p' tgt hold inv nz dt show ?thesis
    by blast
qed

end
